theory Spec2Isabelle
  imports Main
begin

section \<open>Python values and strings\<close>

text \<open>
  The values that come back over the IPC channel are tested with Python's truth test
  (\<^verbatim>\<open>if value\<close>): \<^verbatim>\<open>None\<close>, \<^verbatim>\<open>False\<close>, \<^verbatim>\<open>0\<close> and the empty
  string are falsy, everything else is truthy.
\<close>

datatype pyval = PyNone | PyBool bool | PyInt int | PyStr string

fun truthy :: "pyval \<Rightarrow> bool" where
  "truthy PyNone = False"
| "truthy (PyBool b) = b"
| "truthy (PyInt i) = (i \<noteq> 0)"
| "truthy (PyStr s) = (s \<noteq> [])"

text \<open>
  \<^verbatim>\<open>str.replace(old, new)\<close>: every non-overlapping occurrence of \<open>old\<close>, found from
  left to right, is replaced by \<open>new\<close>. With an empty \<open>old\<close> Python puts \<open>new\<close> before
  every character and at the end.
\<close>

function str_replace :: "string \<Rightarrow> string \<Rightarrow> string \<Rightarrow> string" where
  "str_replace old new [] = (if old = [] then new else [])"
| "str_replace old new (c # cs) =
     (if old = [] then new @ c # str_replace old new cs
      else if take (length old) (c # cs) = old
           then new @ str_replace old new (drop (length old) (c # cs))
      else c # str_replace old new cs)"
  by pat_completeness auto
termination
  by (relation "measure (\<lambda>(old, new, s). length s)") auto

section \<open>The coordinator state\<close>

text \<open>
  \<^verbatim>\<open>class NVDAState\<close> holds two class attributes, shared by the whole process:
  \<^verbatim>\<open>pre_phrase_sent\<close> (initially \<^verbatim>\<open>False\<close>) and \<^verbatim>\<open>reenable_commands\<close>
  (initially \<^verbatim>\<open>[]\<close>).
\<close>

record NVDAState =
  pre_phrase_sent :: bool
  reenable_commands :: "string list"

definition initial_state :: NVDAState where
  "initial_state = \<lparr>pre_phrase_sent = False, reenable_commands = []\<rparr>"

section \<open>The environment and the observable effects\<close>

datatype exn = NameError | AttributeError | ChannelError

text \<open>
  The only function object the module hands to \<^verbatim>\<open>cron.after\<close> from the coordinator is
  \<^verbatim>\<open>lambda: actions.user.send_ipc_commands(NVDAState.reenable_commands)\<close>. It has no
  parameter and captures no local variable: its body reads the class attribute when the
  lambda is called.
\<close>

datatype thunk = Lambda_send_reenable_commands

datatype event =
    Scope_get_mode
  | Client_testIfRunning
  | Settings_get_addon_debug
  | Print_not_running int
  | Path_exists_SPEC_FILE
  | Send_ipc_commands "string list"
  | Cron_after string thunk

text \<open>
  What the module reads from outside. \<open>nvda_client\<close> is \<open>None\<close> when no client library
  was loaded (the module sets it to \<^verbatim>\<open>None\<close> off Windows) and \<open>Some code\<close> for a loaded
  library whose \<^verbatim>\<open>nvdaController_testIfRunning()\<close> returns \<open>code\<close>.
  \<open>send_ipc_commands\<close> is the command batch channel \<^verbatim>\<open>actions.user.send_ipc_commands\<close>,
  which is defined outside this module: for a batch it either raises or returns the
  list of \<open>(command, value)\<close> pairs.
\<close>

record env =
  os_name :: string
  nvda_client :: "int option"
  addon_debug :: bool
  scope_mode :: "string set"
  spec_file_exists :: bool
  send_ipc_commands :: "string list \<Rightarrow> exn + (string \<times> pyval) list"

text \<open>
  The result of running a callback: the exception that left it (if any), the
  coordinator state afterwards and the external calls it made, in order.
\<close>

record run =
  raised :: "exn option"
  state_after :: NVDAState
  events :: "event list"

section \<open>The capability probe\<close>

definition NVDA_RUNNING_CONSTANT :: int where
  "NVDA_RUNNING_CONSTANT = 0"

text \<open>Calling a method of \<^verbatim>\<open>None\<close> raises \<^verbatim>\<open>AttributeError\<close>.\<close>

definition nvdaController_testIfRunning :: "int option \<Rightarrow> exn + int" where
  "nvdaController_testIfRunning client =
     (case client of None \<Rightarrow> Inl AttributeError | Some code \<Rightarrow> Inr code)"

definition is_nvda_running :: "env \<Rightarrow> (exn + bool) \<times> event list" where
  "is_nvda_running e =
     (if os_name e \<noteq> ''nt'' \<or> nvda_client e = None then (Inr False, [])
      else case nvdaController_testIfRunning (nvda_client e) of
             Inl x \<Rightarrow> (Inl x, [Client_testIfRunning])
           | Inr client_response \<Rightarrow>
               if client_response = NVDA_RUNNING_CONSTANT
               then (Inr True, [Client_testIfRunning])
               else if addon_debug e
                 then (Inr False, [Client_testIfRunning, Settings_get_addon_debug,
                                   Print_not_running client_response])
                 else (Inr False, [Client_testIfRunning, Settings_get_addon_debug]))"

section \<open>The phrase callbacks\<close>

text \<open>
  \<^verbatim>\<open>SPEC_FILE\<close> is assigned only in the \<^verbatim>\<open>os.name == "nt"\<close> branch of the module, so
  evaluating \<^verbatim>\<open>os.path.exists(SPEC_FILE)\<close> anywhere else raises \<^verbatim>\<open>NameError\<close> before
  the file system is asked.
\<close>

definition path_exists_SPEC_FILE :: "env \<Rightarrow> (exn + bool) \<times> event list" where
  "path_exists_SPEC_FILE e =
     (if os_name e = ''nt'' then (Inr (spec_file_exists e), [Path_exists_SPEC_FILE])
      else (Inl NameError, []))"

text \<open>
  Both callbacks start with the same \<^verbatim>\<open>or\<close> chain, which differs in its middle
  disjunct only: \<^verbatim>\<open>not actions.user.is_nvda_running() or <sleep test> or not
  os.path.exists(SPEC_FILE)\<close>. \<open>gate\<close> evaluates it from left to right as Python does,
  stopping at the first true disjunct; \<open>Inr True\<close> means that the condition holds and
  the callback returns at once.
\<close>

definition gate :: "env \<Rightarrow> bool \<Rightarrow> (exn + bool) \<times> event list" where
  "gate e sleep_test =
     (case is_nvda_running e of
        (Inl x, t) \<Rightarrow> (Inl x, t)
      | (Inr running, t) \<Rightarrow>
          if \<not> running then (Inr True, t)
          else if sleep_test then (Inr True, t)
          else (case path_exists_SPEC_FILE e of
                  (Inl x, t') \<Rightarrow> (Inl x, t @ t')
                | (Inr ex, t') \<Rightarrow> (Inr (\<not> ex), t @ t')))"

definition commands :: "string list" where
  "commands =
     [''getSpeechInterruptForCharacters'',
      ''getSpeakTypedWords'',
      ''getSpeakTypedCharacters'',
      ''disableSpeechInterruptForCharacters'',
      ''disableSpeakTypedWords'',
      ''disableSpeakTypedCharacters'']"

text \<open>
  The \<^verbatim>\<open>for command, value in results\<close> loop over the reply, with the list built so far
  as accumulator: the \<^verbatim>\<open>case\<close> matches the three query names and is guarded by
  \<^verbatim>\<open>if value\<close>.
\<close>

fun reenable_loop :: "(string \<times> pyval) list \<Rightarrow> string list \<Rightarrow> string list" where
  "reenable_loop [] acc = acc"
| "reenable_loop ((command, val) # results) acc =
     reenable_loop results
       (if (command = ''getSpeechInterruptForCharacters''
            \<or> command = ''getSpeakTypedWords''
            \<or> command = ''getSpeakTypedCharacters'') \<and> truthy val
        then acc @ [str_replace ''get'' ''enable'' command]
        else acc)"

definition disable_interrupt :: "env \<Rightarrow> NVDAState \<Rightarrow> run" where
  "disable_interrupt e st =
     (let SLEEP_MODE = (''sleep'' \<in> scope_mode e) in
      case gate e SLEEP_MODE of
        (Inl x, t) \<Rightarrow> \<lparr>raised = Some x, state_after = st, events = Scope_get_mode # t\<rparr>
      | (Inr abort, t) \<Rightarrow>
          if abort
          then \<lparr>raised = None, state_after = st, events = Scope_get_mode # t\<rparr>
          else (case send_ipc_commands e commands of
                  Inl x \<Rightarrow>
                    \<lparr>raised = Some x, state_after = st,
                     events = Scope_get_mode # t @ [Send_ipc_commands commands]\<rparr>
                | Inr results \<Rightarrow>
                    \<lparr>raised = None,
                     state_after = \<lparr>pre_phrase_sent = True,
                                    reenable_commands = reenable_loop results []\<rparr>,
                     events = Scope_get_mode # t @ [Send_ipc_commands commands]\<rparr>))"

definition enable_interrupt :: "env \<Rightarrow> NVDAState \<Rightarrow> run" where
  "enable_interrupt e st =
     (let SLEEP_MODE = (''sleep'' \<in> scope_mode e) in
      case gate e (SLEEP_MODE \<and> \<not> pre_phrase_sent st) of
        (Inl x, t) \<Rightarrow> \<lparr>raised = Some x, state_after = st, events = Scope_get_mode # t\<rparr>
      | (Inr abort, t) \<Rightarrow>
          if abort
          then \<lparr>raised = None, state_after = st, events = Scope_get_mode # t\<rparr>
          else if length (reenable_commands st) = 0
          then \<lparr>raised = None, state_after = st, events = Scope_get_mode # t\<rparr>
          else \<lparr>raised = None,
                state_after = st\<lparr>pre_phrase_sent := False\<rparr>,
                events = Scope_get_mode # t
                           @ [Cron_after ''400ms'' Lambda_send_reenable_commands]\<rparr>)"

text \<open>
  Calling the scheduled lambda, in the environment and the coordinator state of the
  moment it is called. The reply of the channel is dropped; an exception leaves the
  lambda, inside the timer.
\<close>

fun call_thunk :: "thunk \<Rightarrow> env \<Rightarrow> NVDAState \<Rightarrow> run" where
  "call_thunk Lambda_send_reenable_commands e st =
     (case send_ipc_commands e (reenable_commands st) of
        Inl x \<Rightarrow> \<lparr>raised = Some x, state_after = st,
                  events = [Send_ipc_commands (reenable_commands st)]\<rparr>
      | Inr results \<Rightarrow> \<lparr>raised = None, state_after = st,
                        events = [Send_ipc_commands (reenable_commands st)]\<rparr>)"

section \<open>Sequences of calls\<close>

text \<open>
  The speech engine calls \<^verbatim>\<open>disable_interrupt\<close> on \<^verbatim>\<open>pre:phrase\<close> and
  \<^verbatim>\<open>enable_interrupt\<close> on \<^verbatim>\<open>post:phrase\<close>; the timer calls the scheduled lambda.
  Each call sees the environment of its own moment and the state the calls before it
  left behind.
\<close>

datatype call = Phrase_started env | Phrase_ended env | Timer_fired thunk env

fun do_call :: "call \<Rightarrow> NVDAState \<Rightarrow> run" where
  "do_call (Phrase_started e) st = disable_interrupt e st"
| "do_call (Phrase_ended e) st = enable_interrupt e st"
| "do_call (Timer_fired th e) st = call_thunk th e st"

fun run_calls :: "call list \<Rightarrow> NVDAState \<Rightarrow> NVDAState" where
  "run_calls [] st = st"
| "run_calls (c # cs) st = run_calls cs (state_after (do_call c st))"

abbreviation reader_running :: "env \<Rightarrow> bool" where
  "reader_running e \<equiv> fst (is_nvda_running e) = Inr True"

abbreviation sleep_mode :: "env \<Rightarrow> bool" where
  "sleep_mode e \<equiv> ''sleep'' \<in> scope_mode e"

text \<open>The three conditions under which the \<^verbatim>\<open>post:phrase\<close> callback goes on.\<close>

abbreviation ended_gate_passes :: "env \<Rightarrow> NVDAState \<Rightarrow> bool" where
  "ended_gate_passes e st \<equiv>
     reader_running e \<and> \<not> (sleep_mode e \<and> \<not> pre_phrase_sent st) \<and> spec_file_exists e"

text \<open>
  A call that reaches the assignment \<^verbatim>\<open>NVDAState.reenable_commands = []\<close>: a
  \<^verbatim>\<open>pre:phrase\<close> callback whose three tests pass and whose batch comes back.
\<close>

fun overwrites :: "call \<Rightarrow> bool" where
  "overwrites (Phrase_started e) =
     (reader_running e \<and> \<not> sleep_mode e \<and> spec_file_exists e
      \<and> \<not> isl (send_ipc_commands e commands))"
| "overwrites (Phrase_ended e) = False"
| "overwrites (Timer_fired th e) = False"

section \<open>The selection rule as the specification words it\<close>

text \<open>
  The specification names three behaviours, each with a query command \<open>get\<cdot>X\<close>, and
  builds the pending list from the reply: the enable form \<open>enable\<cdot>X\<close> of every query
  result whose value is truthy, in the order of the reply; everything else is dropped.
\<close>

definition behaviors :: "string list" where
  "behaviors = [''SpeechInterruptForCharacters'', ''SpeakTypedWords'', ''SpeakTypedCharacters'']"

definition spec_is_query :: "string \<Rightarrow> bool" where
  "spec_is_query c = (c \<in> set (map (\<lambda>X. ''get'' @ X) behaviors))"

definition spec_enable_form :: "string \<Rightarrow> string" where
  "spec_enable_form c = ''enable'' @ drop (length ''get'') c"

definition spec_pendingReenable :: "(string \<times> pyval) list \<Rightarrow> string list" where
  "spec_pendingReenable results =
     map (\<lambda>(c, v). spec_enable_form c)
       (filter (\<lambda>(c, v). spec_is_query c \<and> truthy v) results)"

section \<open>Concrete environments\<close>

text \<open>A channel that answers every command of a batch from a table, \<^verbatim>\<open>None\<close> by default.\<close>

definition answering ::
  "(string \<times> pyval) list \<Rightarrow> string list \<Rightarrow> exn + (string \<times> pyval) list" where
  "answering table cs =
     Inr (map (\<lambda>c. (c, case map_of table c of None \<Rightarrow> PyNone | Some v \<Rightarrow> v)) cs)"

text \<open>
  Windows, the reader running, command mode, the spec file present; the reader has
  interrupt-on-character and speak-typed-characters on and speak-typed-words off.
\<close>

definition env_awake :: env where
  "env_awake =
     \<lparr>os_name = ''nt'', nvda_client = Some 0, addon_debug = False,
      scope_mode = {''command''}, spec_file_exists = True,
      send_ipc_commands = answering
        [(''getSpeechInterruptForCharacters'', PyBool True),
         (''getSpeakTypedWords'', PyBool False),
         (''getSpeakTypedCharacters'', PyBool True)]\<rparr>"

definition env_asleep :: env where
  "env_asleep = env_awake\<lparr>scope_mode := {''sleep''}\<rparr>"

definition env_all_off :: env where
  "env_all_off = env_awake\<lparr>send_ipc_commands := answering []\<rparr>"

definition env_channel_down :: env where
  "env_channel_down = env_awake\<lparr>send_ipc_commands := (\<lambda>cs. Inl ChannelError)\<rparr>"

definition st_suppressing :: NVDAState where
  "st_suppressing = \<lparr>pre_phrase_sent = True, reenable_commands = [''enableSpeakTypedWords'']\<rparr>"

definition st_nothing_pending :: NVDAState where
  "st_nothing_pending = \<lparr>pre_phrase_sent = True, reenable_commands = []\<rparr>"

section \<open>Case analyses of the callbacks\<close>

lemma is_nvda_running_events:
  "set (snd (is_nvda_running e))
     \<subseteq> {Client_testIfRunning, Settings_get_addon_debug} \<union> range Print_not_running"
  by (auto simp: is_nvda_running_def nvdaController_testIfRunning_def
           split: option.splits if_splits)

lemma gate_running:
  "reader_running e \<Longrightarrow>
     gate e s = (Inr (s \<or> \<not> spec_file_exists e),
                 snd (is_nvda_running e) @ (if s then [] else [Path_exists_SPEC_FILE]))"
  by (auto simp: gate_def is_nvda_running_def path_exists_SPEC_FILE_def
           split: prod.splits sum.splits if_splits)

lemma gate_not_running:
  "\<not> reader_running e \<Longrightarrow> gate e s = (Inr True, snd (is_nvda_running e))"
  by (auto simp: gate_def is_nvda_running_def path_exists_SPEC_FILE_def
                 nvdaController_testIfRunning_def
           split: prod.splits sum.splits if_splits option.splits)

lemma disable_interrupt_cases:
  "disable_interrupt e st =
     (if reader_running e \<and> \<not> sleep_mode e \<and> spec_file_exists e
      then (case send_ipc_commands e commands of
              Inl x \<Rightarrow>
                \<lparr>raised = Some x, state_after = st,
                 events = Scope_get_mode # snd (is_nvda_running e)
                            @ [Path_exists_SPEC_FILE, Send_ipc_commands commands]\<rparr>
            | Inr results \<Rightarrow>
                \<lparr>raised = None,
                 state_after = \<lparr>pre_phrase_sent = True,
                                reenable_commands = reenable_loop results []\<rparr>,
                 events = Scope_get_mode # snd (is_nvda_running e)
                            @ [Path_exists_SPEC_FILE, Send_ipc_commands commands]\<rparr>)
      else \<lparr>raised = None, state_after = st,
            events = Scope_get_mode # snd (is_nvda_running e)
                       @ (if reader_running e \<and> \<not> sleep_mode e
                          then [Path_exists_SPEC_FILE] else [])\<rparr>)"
  by (cases "reader_running e")
     (auto simp: disable_interrupt_def gate_running gate_not_running Let_def
           split: sum.splits)

lemma enable_interrupt_cases:
  "enable_interrupt e st =
     (if ended_gate_passes e st \<and> reenable_commands st \<noteq> []
      then \<lparr>raised = None, state_after = st\<lparr>pre_phrase_sent := False\<rparr>,
            events = Scope_get_mode # snd (is_nvda_running e)
                       @ [Path_exists_SPEC_FILE,
                          Cron_after ''400ms'' Lambda_send_reenable_commands]\<rparr>
      else \<lparr>raised = None, state_after = st,
            events = Scope_get_mode # snd (is_nvda_running e)
                       @ (if reader_running e \<and> \<not> (sleep_mode e \<and> \<not> pre_phrase_sent st)
                          then [Path_exists_SPEC_FILE] else [])\<rparr>)"
  by (cases "reader_running e")
     (auto simp: enable_interrupt_def gate_running gate_not_running Let_def)

lemma call_thunk_state: "state_after (call_thunk th e st) = st"
  by (cases th) (simp split: sum.splits)

lemma call_thunk_events:
  "events (call_thunk th e st) = [Send_ipc_commands (reenable_commands st)]"
  by (cases th) (simp split: sum.splits)

lemma enable_interrupt_keeps:
  "reenable_commands (state_after (enable_interrupt e st)) = reenable_commands st"
  by (simp add: enable_interrupt_cases)

lemma do_call_keeps:
  "\<not> overwrites c \<Longrightarrow>
     reenable_commands (state_after (do_call c st)) = reenable_commands st"
  by (cases c)
     (auto simp: disable_interrupt_cases enable_interrupt_keeps call_thunk_state
           split: sum.splits)

lemma run_calls_keeps:
  "\<forall>c \<in> set cs. \<not> overwrites c \<Longrightarrow>
     reenable_commands (run_calls cs st) = reenable_commands st"
  by (induction cs arbitrary: st) (simp_all add: do_call_keeps)

text \<open>The loop of the code computes the list the specification describes.\<close>

lemma reenable_loop_spec:
  "reenable_loop results acc = acc @ spec_pendingReenable results"
proof (induction results arbitrary: acc)
  case Nil
  show ?case by (simp add: spec_pendingReenable_def)
next
  case (Cons r results)
  obtain c v where r: "r = (c, v)" by (cases r)
  show ?case
    unfolding r
    by (auto simp: Cons.IH spec_pendingReenable_def spec_is_query_def
                   spec_enable_form_def behaviors_def)
qed

lemma env_awake_running: "reader_running env_awake"
  by (simp add: env_awake_def is_nvda_running_def nvdaController_testIfRunning_def
        NVDA_RUNNING_CONSTANT_def)

lemma env_awake_probe_events: "snd (is_nvda_running env_awake) = [Client_testIfRunning]"
  by (simp add: env_awake_def is_nvda_running_def nvdaController_testIfRunning_def
        NVDA_RUNNING_CONSTANT_def)

lemma is_nvda_running_ignores:
  "is_nvda_running (e\<lparr>scope_mode := m\<rparr>) = is_nvda_running e"
  "is_nvda_running (e\<lparr>send_ipc_commands := f\<rparr>) = is_nvda_running e"
  by (simp_all add: is_nvda_running_def split: sum.splits)

section \<open>Properties of the capability probe\<close>

text \<open>
  C9. \<^verbatim>\<open>is_nvda_running\<close> never raises; it returns \<^verbatim>\<open>True\<close> exactly when the platform
  is Windows, a client library is loaded and its status call reports code 0, so off
  Windows, without a client library and for every other status code it returns
  \<^verbatim>\<open>False\<close>; the debug setting changes what is printed, never the value returned.
\<close>

theorem is_nvda_running_total_code0:
  "fst (is_nvda_running e) = Inr (os_name e = ''nt'' \<and> nvda_client e = Some 0)
   \<and> fst (is_nvda_running (e\<lparr>addon_debug := d\<rparr>)) = fst (is_nvda_running e)"
  by (cases "nvda_client e")
     (simp_all add: is_nvda_running_def nvdaController_testIfRunning_def
        NVDA_RUNNING_CONSTANT_def)

theorem is_nvda_running_total_code0_witness:
  "fst (is_nvda_running env_awake) = Inr True
   \<and> fst (is_nvda_running (env_awake\<lparr>nvda_client := Some 1722\<rparr>)) = Inr False
   \<and> fst (is_nvda_running (env_awake\<lparr>nvda_client := Some 1722, addon_debug := True\<rparr>))
       = Inr False
   \<and> fst (is_nvda_running (env_awake\<lparr>os_name := ''posix'', nvda_client := None\<rparr>))
       = Inr False"
  using is_nvda_running_total_code0 [of env_awake True]
    is_nvda_running_total_code0 [of "env_awake\<lparr>nvda_client := Some 1722\<rparr>" True]
    is_nvda_running_total_code0
      [of "env_awake\<lparr>os_name := ''posix'', nvda_client := None\<rparr>" True]
  by (simp add: env_awake_def)

section \<open>Phrase started\<close>

text \<open>
  C2. Unless the reader is running, sleep mode is off and the spec file is present, the
  \<^verbatim>\<open>pre:phrase\<close> callback returns normally with the coordinator state untouched and
  without a single command batch. After reading the mode set, it makes its tests in the
  order reader, sleep, spec file and stops at the first that fails: the probe always
  runs, and the file system is asked for the spec file only when the reader runs and
  sleep mode is off.
\<close>

theorem disable_interrupt_gate:
  assumes "\<not> (reader_running e \<and> \<not> sleep_mode e \<and> spec_file_exists e)"
  shows "raised (disable_interrupt e st) = None
     \<and> state_after (disable_interrupt e st) = st
     \<and> (\<forall>cs. Send_ipc_commands cs \<notin> set (events (disable_interrupt e st)))
     \<and> events (disable_interrupt e st) =
         Scope_get_mode # snd (is_nvda_running e)
           @ (if reader_running e \<and> \<not> sleep_mode e then [Path_exists_SPEC_FILE] else [])"
  using assms is_nvda_running_events [of e]
  by (auto simp: disable_interrupt_cases)

theorem disable_interrupt_gate_witness:
  "\<not> (reader_running env_asleep \<and> \<not> sleep_mode env_asleep \<and> spec_file_exists env_asleep)
   \<and> state_after (disable_interrupt env_asleep st_suppressing) = st_suppressing
   \<and> events (disable_interrupt env_asleep st_suppressing)
       = [Scope_get_mode, Client_testIfRunning]"
proof -
  have asleep: "sleep_mode env_asleep"
    by (simp add: env_asleep_def)
  have probe: "is_nvda_running env_asleep = (Inr True, [Client_testIfRunning])"
    using env_awake_running env_awake_probe_events
    by (simp add: env_asleep_def is_nvda_running_ignores prod_eq_iff)
  show ?thesis
    using asleep probe disable_interrupt_gate [of env_asleep st_suppressing]
    by simp
qed

text \<open>
  C3. When the three tests pass and the batch comes back, the callback sets the pending
  list to the enable forms of the query results with a truthy value, in the order of
  the reply, and sets the flag; query results with a falsy value and the results of
  the action commands add nothing. For the reply \<open>(getA, true), (getB, false),
  (getC, true)\<close> followed by the acknowledgements the list is \<open>[enableA, enableC]\<close>.
\<close>

theorem disable_interrupt_selects:
  assumes "reader_running e" and "\<not> sleep_mode e" and "spec_file_exists e"
    and "send_ipc_commands e commands = Inr results"
  shows "state_after (disable_interrupt e st) =
           \<lparr>pre_phrase_sent = True, reenable_commands = spec_pendingReenable results\<rparr>"
  using assms by (simp add: disable_interrupt_cases reenable_loop_spec)

theorem disable_interrupt_selects_witness:
  "reader_running env_awake \<and> \<not> sleep_mode env_awake \<and> spec_file_exists env_awake
   \<and> send_ipc_commands env_awake commands =
       Inr [(''getSpeechInterruptForCharacters'', PyBool True),
            (''getSpeakTypedWords'', PyBool False),
            (''getSpeakTypedCharacters'', PyBool True),
            (''disableSpeechInterruptForCharacters'', PyNone),
            (''disableSpeakTypedWords'', PyNone),
            (''disableSpeakTypedCharacters'', PyNone)]
   \<and> state_after (disable_interrupt env_awake st_suppressing) =
       \<lparr>pre_phrase_sent = True,
        reenable_commands =
          [''enableSpeechInterruptForCharacters'', ''enableSpeakTypedCharacters'']\<rparr>"
proof -
  have facts: "\<not> sleep_mode env_awake" "spec_file_exists env_awake"
    by (simp_all add: env_awake_def)
  have reply: "send_ipc_commands env_awake commands =
       Inr [(''getSpeechInterruptForCharacters'', PyBool True),
            (''getSpeakTypedWords'', PyBool False),
            (''getSpeakTypedCharacters'', PyBool True),
            (''disableSpeechInterruptForCharacters'', PyNone),
            (''disableSpeakTypedWords'', PyNone),
            (''disableSpeakTypedCharacters'', PyNone)]"
    by (simp add: env_awake_def answering_def commands_def)
  show ?thesis
    using env_awake_running facts reply
      disable_interrupt_selects [OF env_awake_running facts reply, of st_suppressing]
    by (simp add: spec_pendingReenable_def spec_is_query_def spec_enable_form_def
          behaviors_def)
qed

section \<open>Phrase ended\<close>

text \<open>
  C4. A \<^verbatim>\<open>post:phrase\<close> callback that finds the flag set while sleep mode is active
  (reader running, spec file present) is not stopped by its tests: with a non-empty
  pending list it schedules the restore, which then sends that list.
\<close>

theorem enable_interrupt_sleep_carry_over:
  assumes "reader_running e" and "spec_file_exists e" and "sleep_mode e"
    and "pre_phrase_sent st" and "reenable_commands st \<noteq> []"
  shows "fst (gate e (sleep_mode e \<and> \<not> pre_phrase_sent st)) = Inr False
     \<and> enable_interrupt e st =
         \<lparr>raised = None, state_after = st\<lparr>pre_phrase_sent := False\<rparr>,
          events = Scope_get_mode # snd (is_nvda_running e)
                     @ [Path_exists_SPEC_FILE,
                        Cron_after ''400ms'' Lambda_send_reenable_commands]\<rparr>
     \<and> events (call_thunk Lambda_send_reenable_commands e'
                 (state_after (enable_interrupt e st)))
         = [Send_ipc_commands (reenable_commands st)]"
  using assms by (simp add: enable_interrupt_cases gate_running split: sum.splits)

theorem enable_interrupt_sleep_carry_over_witness:
  "reader_running env_asleep \<and> spec_file_exists env_asleep \<and> sleep_mode env_asleep
   \<and> pre_phrase_sent st_suppressing \<and> reenable_commands st_suppressing \<noteq> []
   \<and> events (enable_interrupt env_asleep st_suppressing) =
       [Scope_get_mode, Client_testIfRunning, Path_exists_SPEC_FILE,
        Cron_after ''400ms'' Lambda_send_reenable_commands]
   \<and> pre_phrase_sent (state_after (enable_interrupt env_asleep st_suppressing)) = False"
proof -
  have probe: "is_nvda_running env_asleep = (Inr True, [Client_testIfRunning])"
    using env_awake_running env_awake_probe_events
    by (simp add: env_asleep_def is_nvda_running_ignores prod_eq_iff)
  have running: "reader_running env_asleep"
    by (simp add: probe)
  have facts: "spec_file_exists env_asleep" "sleep_mode env_asleep"
    "pre_phrase_sent st_suppressing" "reenable_commands st_suppressing \<noteq> []"
    by (simp_all add: env_asleep_def env_awake_def st_suppressing_def)
  show ?thesis
    using probe facts
      enable_interrupt_sleep_carry_over [OF running facts, of env_asleep]
    by simp
qed

text \<open>
  C5, as the code has it. A \<^verbatim>\<open>post:phrase\<close> callback that passes its tests leaves the
  flag false when the pending list is non-empty (the reset is part of the call itself,
  not of the scheduled action), and leaves the flag as it was when the list is empty.
\<close>

theorem enable_interrupt_reset:
  assumes "ended_gate_passes e st"
  shows "pre_phrase_sent (state_after (enable_interrupt e st)) =
           (pre_phrase_sent st \<and> reenable_commands st = [])"
  using assms by (auto simp: enable_interrupt_cases)

theorem enable_interrupt_reset_witness:
  "ended_gate_passes env_awake st_suppressing
   \<and> pre_phrase_sent st_suppressing
   \<and> pre_phrase_sent (state_after (enable_interrupt env_awake st_suppressing)) = False"
proof -
  have passes: "ended_gate_passes env_awake st_suppressing"
    using env_awake_running by (simp add: env_awake_def)
  show ?thesis
    using passes enable_interrupt_reset [OF passes]
    by (simp add: st_suppressing_def)
qed

text \<open>
  The claim as worded fails for an empty pending list: the callback passes its tests
  and returns with the flag still set.
\<close>

theorem enable_interrupt_reset_counterexample:
  "ended_gate_passes env_awake st_nothing_pending
   \<and> fst (gate env_awake (sleep_mode env_awake \<and> \<not> pre_phrase_sent st_nothing_pending))
       = Inr False
   \<and> pre_phrase_sent (state_after (enable_interrupt env_awake st_nothing_pending)) = True"
proof -
  have passes: "ended_gate_passes env_awake st_nothing_pending"
    using env_awake_running by (simp add: env_awake_def)
  show ?thesis
    using passes
    by (simp add: enable_interrupt_cases gate_running st_nothing_pending_def)
qed

text \<open>
  C6. A \<^verbatim>\<open>post:phrase\<close> callback that passes its tests and finds the pending list
  empty returns without scheduling anything and without touching the coordinator
  state, the flag included.
\<close>

theorem enable_interrupt_empty:
  assumes "ended_gate_passes e st" and "reenable_commands st = []"
  shows "enable_interrupt e st =
           \<lparr>raised = None, state_after = st,
            events = Scope_get_mode # snd (is_nvda_running e) @ [Path_exists_SPEC_FILE]\<rparr>
         \<and> (\<forall>d th. Cron_after d th \<notin> set (events (enable_interrupt e st)))"
  using assms is_nvda_running_events [of e]
  by (auto simp: enable_interrupt_cases)

theorem enable_interrupt_empty_witness:
  "ended_gate_passes env_awake st_nothing_pending
   \<and> reenable_commands st_nothing_pending = []
   \<and> enable_interrupt env_awake st_nothing_pending =
       \<lparr>raised = None, state_after = st_nothing_pending,
        events = [Scope_get_mode, Client_testIfRunning, Path_exists_SPEC_FILE]\<rparr>"
proof -
  have passes: "ended_gate_passes env_awake st_nothing_pending"
    using env_awake_running by (simp add: env_awake_def)
  have empty: "reenable_commands st_nothing_pending = []"
    by (simp add: st_nothing_pending_def)
  show ?thesis
    using passes empty env_awake_probe_events enable_interrupt_empty [OF passes empty]
    by simp
qed

text \<open>
  C8, as the code has it. A \<^verbatim>\<open>post:phrase\<close> callback that finds the pending list
  empty, as every one does before the first \<^verbatim>\<open>pre:phrase\<close> callback has stored
  something, is a no-op: it returns normally, leaves the state as it was, sends no
  batch and schedules nothing.
\<close>

theorem enable_interrupt_noop_when_empty:
  assumes "reenable_commands st = []"
  shows "raised (enable_interrupt e st) = None
     \<and> state_after (enable_interrupt e st) = st
     \<and> (\<forall>cs. Send_ipc_commands cs \<notin> set (events (enable_interrupt e st)))
     \<and> (\<forall>d th. Cron_after d th \<notin> set (events (enable_interrupt e st)))"
  using assms is_nvda_running_events [of e]
  by (auto simp: enable_interrupt_cases)

theorem enable_interrupt_noop_when_empty_witness:
  "reenable_commands initial_state = []
   \<and> state_after (enable_interrupt env_awake initial_state) = initial_state
   \<and> Cron_after ''400ms'' Lambda_send_reenable_commands
       \<notin> set (events (enable_interrupt env_awake initial_state))"
proof -
  have empty: "reenable_commands initial_state = []"
    by (simp add: initial_state_def)
  show ?thesis
    using empty enable_interrupt_noop_when_empty [OF empty, of env_awake]
    by simp
qed

text \<open>
  The claim as worded fails once a phrase has left something in the pending list,
  which the \<^verbatim>\<open>post:phrase\<close> callback never clears: after one complete phrase a second
  \<^verbatim>\<open>post:phrase\<close> callback, with no \<^verbatim>\<open>pre:phrase\<close> callback before it, schedules
  the restore again.
\<close>

theorem enable_interrupt_unmatched_counterexample:
  "Cron_after ''400ms'' Lambda_send_reenable_commands
     \<in> set (events (enable_interrupt env_awake
          (run_calls [Phrase_started env_awake, Phrase_ended env_awake] initial_state)))"
proof -
  have reply: "send_ipc_commands env_awake commands =
       Inr [(''getSpeechInterruptForCharacters'', PyBool True),
            (''getSpeakTypedWords'', PyBool False),
            (''getSpeakTypedCharacters'', PyBool True),
            (''disableSpeechInterruptForCharacters'', PyNone),
            (''disableSpeakTypedWords'', PyNone),
            (''disableSpeakTypedCharacters'', PyNone)]"
    by (simp add: env_awake_def answering_def commands_def)
  have facts: "\<not> sleep_mode env_awake" "spec_file_exists env_awake"
    by (simp_all add: env_awake_def)
  show ?thesis
    using env_awake_running facts reply
    by (simp add: disable_interrupt_cases enable_interrupt_cases)
qed

text \<open>
  C10. The \<^verbatim>\<open>post:phrase\<close> callback never changes the pending list, whichever way it
  takes, and neither does the scheduled action; a \<^verbatim>\<open>pre:phrase\<close> callback changes it
  only when its three tests pass and the batch comes back.
\<close>

theorem enable_interrupt_keeps_reenable_commands:
  "reenable_commands (state_after (enable_interrupt e st)) = reenable_commands st
   \<and> reenable_commands (state_after (call_thunk th e st)) = reenable_commands st
   \<and> (reenable_commands (state_after (disable_interrupt e st)) \<noteq> reenable_commands st \<longrightarrow>
        reader_running e \<and> \<not> sleep_mode e \<and> spec_file_exists e
        \<and> (\<exists>results. send_ipc_commands e commands = Inr results))"
  by (auto simp: enable_interrupt_cases call_thunk_state disable_interrupt_cases
           split: sum.splits)

theorem enable_interrupt_keeps_reenable_commands_witness:
  "reenable_commands (state_after (enable_interrupt env_awake st_suppressing))
     = [''enableSpeakTypedWords'']
   \<and> reenable_commands (state_after (disable_interrupt env_all_off st_suppressing))
       \<noteq> reenable_commands st_suppressing
   \<and> reader_running env_all_off \<and> \<not> sleep_mode env_all_off \<and> spec_file_exists env_all_off"
proof -
  have running: "reader_running env_all_off"
    using env_awake_running by (simp add: env_all_off_def is_nvda_running_ignores)
  have facts: "\<not> sleep_mode env_all_off" "spec_file_exists env_all_off"
    by (simp_all add: env_all_off_def env_awake_def)
  have reply: "send_ipc_commands env_all_off commands = Inr (map (\<lambda>c. (c, PyNone)) commands)"
    by (simp add: env_all_off_def answering_def)
  have changed: "reenable_commands (state_after (disable_interrupt env_all_off st_suppressing))
       \<noteq> reenable_commands st_suppressing"
    using running facts reply
    by (simp add: disable_interrupt_cases commands_def st_suppressing_def)
  show ?thesis
    using changed
      enable_interrupt_keeps_reenable_commands
        [of env_awake st_suppressing Lambda_send_reenable_commands]
      enable_interrupt_keeps_reenable_commands
        [of env_all_off st_suppressing Lambda_send_reenable_commands]
    by (simp add: st_suppressing_def)
qed

section \<open>The deferred restore\<close>

text \<open>
  C1, as the code has it. The restore is scheduled with the delay \<^verbatim>\<open>"400ms"\<close>, and
  when it fires it sends the pending list of that moment: the lambda reads
  \<^verbatim>\<open>NVDAState.reenable_commands\<close> when it is called. That is the list of scheduling
  time whenever no \<^verbatim>\<open>pre:phrase\<close> callback that passes its tests and gets its reply
  has run in between.
\<close>

theorem deferred_restore_reads_live_state:
  assumes "Cron_after d th \<in> set (events (enable_interrupt e st))"
  shows "d = ''400ms''
    \<and> events (call_thunk th e' st') = [Send_ipc_commands (reenable_commands st')]
    \<and> ((\<forall>c \<in> set cs. \<not> overwrites c) \<longrightarrow>
         events (call_thunk th e' (run_calls cs (state_after (enable_interrupt e st))))
           = [Send_ipc_commands (reenable_commands st)])"
proof -
  have "d = ''400ms''"
    using assms is_nvda_running_events [of e]
    by (auto simp: enable_interrupt_cases split: if_splits)
  then show ?thesis
    by (simp add: call_thunk_events run_calls_keeps enable_interrupt_keeps)
qed

theorem deferred_restore_reads_live_state_witness:
  "Cron_after ''400ms'' Lambda_send_reenable_commands
     \<in> set (events (enable_interrupt env_awake st_suppressing))
   \<and> \<not> overwrites (Phrase_ended env_awake) \<and> \<not> overwrites (Phrase_started env_asleep)
   \<and> events (call_thunk Lambda_send_reenable_commands env_awake
        (run_calls [Phrase_ended env_awake, Phrase_started env_asleep]
           (state_after (enable_interrupt env_awake st_suppressing))))
       = [Send_ipc_commands [''enableSpeakTypedWords'']]"
proof -
  have passes: "ended_gate_passes env_awake st_suppressing"
    using env_awake_running by (simp add: env_awake_def)
  have pending: "reenable_commands st_suppressing = [''enableSpeakTypedWords'']"
    by (simp add: st_suppressing_def)
  have scheduled: "Cron_after ''400ms'' Lambda_send_reenable_commands
     \<in> set (events (enable_interrupt env_awake st_suppressing))"
    using passes pending by (simp add: enable_interrupt_cases)
  have quiet: "\<forall>c \<in> set [Phrase_ended env_awake, Phrase_started env_asleep]. \<not> overwrites c"
    by (simp add: env_asleep_def)
  show ?thesis
    using scheduled quiet pending
      deferred_restore_reads_live_state [OF scheduled, of env_awake st_suppressing
        "[Phrase_ended env_awake, Phrase_started env_asleep]"]
    by simp
qed

text \<open>
  The claim as worded fails when a new phrase starts between scheduling and firing:
  the restore scheduled for \<open>[enableSpeakTypedWords]\<close> sends the empty list that the
  new \<^verbatim>\<open>pre:phrase\<close> callback has stored in the meantime.
\<close>

theorem deferred_restore_snapshot_counterexample:
  "Cron_after ''400ms'' Lambda_send_reenable_commands
     \<in> set (events (enable_interrupt env_awake st_suppressing))
   \<and> reenable_commands st_suppressing = [''enableSpeakTypedWords'']
   \<and> events (call_thunk Lambda_send_reenable_commands env_all_off
        (run_calls [Phrase_started env_all_off]
           (state_after (enable_interrupt env_awake st_suppressing))))
       = [Send_ipc_commands []]"
proof -
  have passes: "ended_gate_passes env_awake st_suppressing"
    using env_awake_running by (simp add: env_awake_def)
  have pending: "reenable_commands st_suppressing = [''enableSpeakTypedWords'']"
    by (simp add: st_suppressing_def)
  have running: "reader_running env_all_off"
    using env_awake_running by (simp add: env_all_off_def is_nvda_running_ignores)
  have facts: "\<not> sleep_mode env_all_off" "spec_file_exists env_all_off"
    by (simp_all add: env_all_off_def env_awake_def)
  have reply: "send_ipc_commands env_all_off commands = Inr (map (\<lambda>c. (c, PyNone)) commands)"
    by (simp add: env_all_off_def answering_def)
  show ?thesis
    using passes pending running facts reply
    by (simp add: enable_interrupt_cases disable_interrupt_cases call_thunk_events
          commands_def del: call_thunk.simps)
qed

section \<open>Transport errors\<close>

text \<open>
  C7, as the code has it. A transport error raised by the channel during a
  \<^verbatim>\<open>pre:phrase\<close> callback leaves the callback as that exception, with the coordinator
  state exactly as before the call. The \<^verbatim>\<open>post:phrase\<close> callback sends no batch
  itself and never raises; an error of the channel when the restore fires is raised
  inside the scheduled action and leaves the state as it was.
\<close>

theorem transport_error_propagates:
  assumes "reader_running e" and "\<not> sleep_mode e" and "spec_file_exists e"
    and "send_ipc_commands e commands = Inl x"
  shows "raised (disable_interrupt e st) = Some x
     \<and> state_after (disable_interrupt e st) = st
     \<and> raised (enable_interrupt e' st') = None
     \<and> (\<forall>cs. Send_ipc_commands cs \<notin> set (events (enable_interrupt e' st')))
     \<and> (send_ipc_commands e' (reenable_commands st') = Inl y \<longrightarrow>
          raised (call_thunk th e' st') = Some y
          \<and> state_after (call_thunk th e' st') = st')"
  using assms is_nvda_running_events [of e']
  by (cases th) (auto simp: disable_interrupt_cases enable_interrupt_cases)

theorem transport_error_propagates_witness:
  "reader_running env_channel_down \<and> \<not> sleep_mode env_channel_down
   \<and> spec_file_exists env_channel_down
   \<and> send_ipc_commands env_channel_down commands = Inl ChannelError
   \<and> state_after (disable_interrupt env_channel_down st_suppressing) = st_suppressing
   \<and> raised (enable_interrupt env_channel_down st_suppressing) = None
   \<and> send_ipc_commands env_channel_down (reenable_commands st_suppressing) = Inl ChannelError
   \<and> raised (call_thunk Lambda_send_reenable_commands env_channel_down st_suppressing)
       = Some ChannelError"
proof -
  have running: "reader_running env_channel_down"
    using env_awake_running by (simp add: env_channel_down_def is_nvda_running_ignores)
  have facts: "\<not> sleep_mode env_channel_down" "spec_file_exists env_channel_down"
    by (simp_all add: env_channel_down_def env_awake_def)
  have down: "send_ipc_commands env_channel_down cs = Inl ChannelError" for cs
    by (simp add: env_channel_down_def)
  show ?thesis
    using running facts down
      transport_error_propagates [OF running facts down, of st_suppressing
        env_channel_down st_suppressing ChannelError Lambda_send_reenable_commands]
    by simp
qed

text \<open>
  The claim as worded fails for the \<^verbatim>\<open>pre:phrase\<close> callback: with the channel down
  the exception reaches the caller.
\<close>

theorem transport_error_escalates_counterexample:
  "raised (disable_interrupt env_channel_down initial_state) = Some ChannelError"
proof -
  have running: "reader_running env_channel_down"
    using env_awake_running by (simp add: env_channel_down_def is_nvda_running_ignores)
  have facts: "\<not> sleep_mode env_channel_down" "spec_file_exists env_channel_down"
    "send_ipc_commands env_channel_down commands = Inl ChannelError"
    by (simp_all add: env_channel_down_def env_awake_def)
  show ?thesis
    using running facts by (simp add: disable_interrupt_cases)
qed

end
